theory Spec2Isabelle
  imports Complex_Main "HOL-Library.Multiset" "HOL-Library.Sublist"
begin

section \<open>The PICORadar benchmark report generator\<close>

text \<open>
  A shallow embedding of \<^verbatim>\<open>scripts/generate_performance_report.py\<close>.

  Conventions of the embedding.
  \<^item> A benchmark entry is a Python dict read with \<^verbatim>\<open>.get(key, default)\<close>; it is a record
    whose fields are optional (\<open>None\<close>: the key is absent) and hold values of the type the
    input format gives them (a string, a number, an integer).
  \<^item> Python numbers are exact rationals: the binary rounding of floating point is not
    modelled, so \<^verbatim>\<open>x / 1000\<close> is the exact quotient. The format \<^verbatim>\<open>:.2f\<close> rounds the
    value it is given to two decimals, ties to even, as Python does with the value of a float.
  \<^item> Strings are byte lists in UTF-8; the micro sign of the microsecond suffix is the two bytes CE BC.
  \<^item> Exceptions are values of \<open>py_error\<close>, returned in \<open>Inl\<close>.
\<close>

subsection \<open>Input data\<close>

record benchmark =
  name :: "string option"
  real_time :: "rat option"
  cpu_time :: "rat option"
  iterations :: "int option"
  items_per_second :: "rat option"

record cpu_info =
  cpu_name :: "string option"
  num_cpus :: "int option"

record run_context =
  host_name :: "string option"
  cpu_info :: "cpu_info option"

text \<open>
  The loaded top-level mapping. \<open>other_keys\<close> says whether the mapping has a key besides
  \<^verbatim>\<open>benchmarks\<close> and \<^verbatim>\<open>context\<close>; it only matters for the truth value of the dict.
\<close>

record bench_data =
  benchmarks :: "benchmark list option"
  context_info :: "run_context option"
  other_keys :: bool

datatype py_error = KeyError | StatisticsError | ValueError | AttributeError

text \<open>\<^verbatim>\<open>d.get(key, default)\<close> on an optional field.\<close>

definition get_default :: "'a option \<Rightarrow> 'a \<Rightarrow> 'a" where
  "get_default field dflt = (case field of None \<Rightarrow> dflt | Some v \<Rightarrow> v)"

subsection \<open>Classifier\<close>

text \<open>Python's \<^verbatim>\<open>pat in s\<close> on strings: \<open>pat\<close> starts at some position of \<open>s\<close>.\<close>

fun str_in :: "string \<Rightarrow> string \<Rightarrow> bool" where
  "str_in pat [] = (pat = [])"
| "str_in pat (c # cs) = (prefix pat (c # cs) \<or> str_in pat cs)"

text \<open>The key chosen by the \<^verbatim>\<open>if/elif\<close> chain of \<^verbatim>\<open>categorize_benchmarks\<close>.\<close>

definition category_of :: "string \<Rightarrow> string" where
  "category_of nm =
     (if str_in ''PlayerRegistry'' nm then ''Core''
      else if str_in ''Protobuf'' nm \<or> str_in ''Batch'' nm \<or> str_in ''Serialization'' nm
        then ''Network''
      else if str_in ''Config'' nm then ''Config''
      else if str_in ''Memory'' nm then ''Memory''
      else ''Other'')"

text \<open>
  The dict of categories is an association list in insertion order, which is the order
  \<^verbatim>\<open>categories.items()\<close> iterates in. \<open>dict_append k v d\<close> is \<^verbatim>\<open>d[k].append(v)\<close>;
  the five keys are all present from the start, so the lookup never raises.
\<close>

type_synonym categories = "(string \<times> benchmark list) list"

definition category_names :: "string list" where
  "category_names = [''Core'', ''Network'', ''Config'', ''Memory'', ''Other'']"

definition empty_categories :: categories where
  "empty_categories = map (\<lambda>k. (k, [])) category_names"

definition dict_append :: "string \<Rightarrow> 'a \<Rightarrow> (string \<times> 'a list) list \<Rightarrow> (string \<times> 'a list) list" where
  "dict_append k v d = map (\<lambda>(k', vs). if k' = k then (k', vs @ [v]) else (k', vs)) d"

definition categorize_step :: "categories \<Rightarrow> benchmark \<Rightarrow> categories" where
  "categorize_step cats b = dict_append (category_of (get_default (name b) [])) b cats"

definition categorize_benchmarks :: "bench_data \<Rightarrow> categories" where
  "categorize_benchmarks d = foldl categorize_step empty_categories (get_default (benchmarks d) [])"

text \<open>The category a record is filed under.\<close>

definition category_of_benchmark :: "benchmark \<Rightarrow> string" where
  "category_of_benchmark b = category_of (get_default (name b) [])"

subsection \<open>Formatter\<close>

text \<open>Decimal digits of a natural number, as \<^verbatim>\<open>str(n)\<close> prints them.\<close>

definition digit_char :: "nat \<Rightarrow> char" where
  "digit_char d = ''0123456789'' ! d"

fun str_nat :: "nat \<Rightarrow> string" where
  "str_nat n = (if n < 10 then [digit_char n] else str_nat (n div 10) @ [digit_char (n mod 10)])"

declare str_nat.simps [simp del]

definition str_int :: "int \<Rightarrow> string" where
  "str_int i = (if i < 0 then ''-'' @ str_nat (nat (- i)) else str_nat (nat i))"

text \<open>Rounding to the nearest integer, ties to the even one.\<close>

definition round_half_even :: "rat \<Rightarrow> int" where
  "round_half_even x =
     (let f = floor x; r = x - of_int f
      in if r < 1 / 2 then f else if 1 / 2 < r then f + 1 else if even f then f else f + 1)"

text \<open>The formats \<^verbatim>\<open>:.2f\<close> and \<^verbatim>\<open>:.0f\<close>.\<close>

definition format_2f :: "rat \<Rightarrow> string" where
  "format_2f x =
     (let n = nat (round_half_even (\<bar>x\<bar> * 100))
      in (if x < 0 then ''-'' else []) @ str_nat (n div 100) @ ''.''
         @ [digit_char (n mod 100 div 10), digit_char (n mod 10)])"

definition format_0f :: "rat \<Rightarrow> string" where
  "format_0f x = (if x < 0 then ''-'' else []) @ str_nat (nat (round_half_even \<bar>x\<bar>))"

text \<open>The format \<^verbatim>\<open>:,\<close> of an integer: digits in groups of three from the right.\<close>

fun group3 :: "string \<Rightarrow> string" where
  "group3 (a # b # c # d # ds) = a # b # c # CHR '','' # group3 (d # ds)"
| "group3 ds = ds"

definition format_comma :: "int \<Rightarrow> string" where
  "format_comma i = (if i < 0 then ''-'' else []) @ rev (group3 (rev (str_nat (nat \<bar>i\<bar>))))"

definition micro_sign :: string where
  "micro_sign = [CHR 0xCE, CHR 0xBC]"

definition format_time :: "rat \<Rightarrow> string" where
  "format_time time_ns =
     (if time_ns < 1000 then format_2f time_ns @ '' ns''
      else if time_ns < 1000000 then format_2f (time_ns / 1000) @ '' '' @ micro_sign @ ''s''
      else if time_ns < 1000000000 then format_2f (time_ns / 1000000) @ '' ms''
      else format_2f (time_ns / 1000000000) @ '' s'')"

subsection \<open>Aggregator\<close>

text \<open>
  \<^verbatim>\<open>statistics.mean\<close>, \<^verbatim>\<open>statistics.median\<close>, \<^verbatim>\<open>min\<close> and \<^verbatim>\<open>max\<close> of the Python library.
  Each raises on an empty sequence.
\<close>

definition statistics_mean :: "rat list \<Rightarrow> py_error + rat" where
  "statistics_mean xs =
     (if xs = [] then Inl StatisticsError else Inr (sum_list xs / of_nat (length xs)))"

definition statistics_median :: "rat list \<Rightarrow> py_error + rat" where
  "statistics_median xs =
     (let data = sort xs; n = length data
      in if n = 0 then Inl StatisticsError
         else if n mod 2 = 1 then Inr (data ! (n div 2))
         else Inr ((data ! (n div 2 - 1) + data ! (n div 2)) / 2))"

fun py_min :: "rat list \<Rightarrow> py_error + rat" where
  "py_min [] = Inl ValueError"
| "py_min (x # xs) = Inr (foldl (\<lambda>m y. if y < m then y else m) x xs)"

fun py_max :: "rat list \<Rightarrow> py_error + rat" where
  "py_max [] = Inl ValueError"
| "py_max (x # xs) = Inr (foldl (\<lambda>m y. if m < y then y else m) x xs)"

record summary_stats =
  stats_count :: nat
  avg_time :: rat
  median_time :: rat
  min_time :: rat
  max_time :: rat
  total_tests :: nat

text \<open>\<^verbatim>\<open>b.get('real_time', 0)\<close>.\<close>

definition get_real_time :: "benchmark \<Rightarrow> rat" where
  "get_real_time b = get_default (real_time b) 0"

text \<open>The result is \<open>None\<close> for the empty dict \<^verbatim>\<open>{}\<close>.\<close>

definition generate_summary_stats :: "benchmark list \<Rightarrow> py_error + summary_stats option" where
  "generate_summary_stats bs =
     (if bs = [] then Inr None
      else let times = map get_real_time bs
        in case statistics_mean times of Inl e \<Rightarrow> Inl e | Inr avg \<Rightarrow>
          (case statistics_median times of Inl e \<Rightarrow> Inl e | Inr med \<Rightarrow>
            (case py_min times of Inl e \<Rightarrow> Inl e | Inr mn \<Rightarrow>
              (case py_max times of Inl e \<Rightarrow> Inl e | Inr mx \<Rightarrow>
                Inr (Some \<lparr>stats_count = length bs, avg_time = avg, median_time = med,
                  min_time = mn, max_time = mx, total_tests = length bs\<rparr>)))))"

subsection \<open>Renderer\<close>

text \<open>
  The document is the sequence of template instances that the source appends to \<^verbatim>\<open>html\<close>.
  Each constructor is one template of the source and carries the values interpolated into
  it, in the order of their holes; the fixed text of a template is the same in every
  document and is left out.
  \<^item> \<open>NoData\<close>: the page returned when the data is empty;
  \<^item> \<open>PageHead\<close>: style sheet, title and overview, with the generation time, the host name,
    the CPU name, the number of cores and the number of benchmarks;
  \<^item> \<open>SectionHead\<close>: the heading of a category with its name, the summary (count, average,
    fastest and slowest time) and the head of the table;
  \<^item> \<open>TableRow\<close>: name, severity class, real time, CPU time, iterations, throughput;
  \<^item> \<open>SectionEnd\<close>: the end of table and section;
  \<^item> \<open>PageFoot\<close>: the footer with the name of the input file.
\<close>

datatype html_piece =
    NoData
  | PageHead string string string string string
  | SectionHead string string string string string
  | TableRow string string string string string string
  | SectionEnd
  | PageFoot string

type_synonym html = "html_piece list"

definition time_class :: "rat \<Rightarrow> string" where
  "time_class rt =
     (if rt < 1000000 then ''good'' else if rt < 10000000 then ''warning'' else ''danger'')"

definition table_row :: "benchmark \<Rightarrow> html_piece" where
  "table_row b =
     (let nm = get_default (name b) ''Unknown'';
          rt = get_default (real_time b) 0;
          ct = get_default (cpu_time b) 0;
          its = get_default (iterations b) 0;
          items_per_sec = get_default (items_per_second b) 0;
          throughput = (if 0 < items_per_sec then format_0f items_per_sec @ '' items/sec''
                        else ''N/A'')
      in TableRow nm (time_class rt) (format_time rt) (format_time ct) (format_comma its)
           throughput)"

definition section_head :: "string \<Rightarrow> summary_stats \<Rightarrow> html_piece" where
  "section_head category_name stats =
     SectionHead category_name (str_nat (stats_count stats)) (format_time (avg_time stats))
       (format_time (min_time stats)) (format_time (max_time stats))"

text \<open>
  The loop over \<^verbatim>\<open>categories.items()\<close>. Reading \<^verbatim>\<open>stats['count']\<close> from the empty dict
  would raise \<^verbatim>\<open>KeyError\<close>. The rows are appended in the order of Python's \<^verbatim>\<open>sorted\<close>,
  a stable sort, as \<open>sort_key\<close> is.
\<close>

fun render_categories :: "html \<Rightarrow> categories \<Rightarrow> py_error + html" where
  "render_categories html [] = Inr html"
| "render_categories html ((category_name, bs) # rest) =
     (if bs = [] then render_categories html rest
      else case generate_summary_stats bs of
          Inl e \<Rightarrow> Inl e
        | Inr None \<Rightarrow> Inl KeyError
        | Inr (Some stats) \<Rightarrow>
            render_categories
              (foldl (\<lambda>h b. h @ [table_row b]) (html @ [section_head category_name stats])
                 (sort_key get_real_time bs)
               @ [SectionEnd])
              rest)"

text \<open>\<^verbatim>\<open>not self.data\<close> for a loaded mapping: the dict has no key.\<close>

definition dict_is_empty :: "bench_data \<Rightarrow> bool" where
  "dict_is_empty d \<longleftrightarrow> benchmarks d = None \<and> context_info d = None \<and> \<not> other_keys d"

definition page_head :: "string \<Rightarrow> bench_data \<Rightarrow> html_piece" where
  "page_head now d =
     (let ctx = get_default (context_info d) \<lparr>host_name = None, cpu_info = None\<rparr>;
          cpu = get_default (cpu_info ctx) \<lparr>cpu_name = None, num_cpus = None\<rparr>
      in PageHead now (get_default (host_name ctx) ''Unknown'')
           (get_default (cpu_name cpu) ''Unknown'')
           (case num_cpus cpu of None \<Rightarrow> ''N/A'' | Some n \<Rightarrow> str_int n)
           (str_nat (length (get_default (benchmarks d) []))))"

text \<open>
  \<open>now\<close> is \<^verbatim>\<open>datetime.now().strftime(...)\<close>, the clock read at render time, and
  \<open>source_name\<close> is \<^verbatim>\<open>self.input_file.name\<close>.
\<close>

definition generate_html_report :: "string \<Rightarrow> string \<Rightarrow> bench_data \<Rightarrow> py_error + html" where
  "generate_html_report now source_name d =
     (if dict_is_empty d then Inr [NoData]
      else let categories = categorize_benchmarks d
        in case render_categories [page_head now d] categories of
             Inl e \<Rightarrow> Inl e
           | Inr html \<Rightarrow> Inr (html @ [PageFoot source_name]))"

subsection \<open>Loader, writer and entry point\<close>

text \<open>
  The file system maps a path to what the file holds: a JSON document that
  \<^verbatim>\<open>json.load\<close> reads as the given mapping, bytes that \<^verbatim>\<open>json.load\<close> rejects, or a report
  written earlier (which is not JSON either). \<open>unreadable\<close> and \<open>unwritable\<close> tell for
  which paths \<^verbatim>\<open>open\<close> raises in read and in write mode. The standard output is the list
  of the messages printed so far, and \<open>clock\<close> the formatted current time.
\<close>

datatype file_content = JsonFile bench_data | NotJson | HtmlFile html

datatype message =
    LoadFailed
  | ReportWritten string
  | ReportFailed
  | InputMissing string
  | RunBenchmarksFirst
  | OpenInBrowser string

record world =
  files :: "string \<Rightarrow> file_content option"
  unreadable :: "string \<Rightarrow> bool"
  unwritable :: "string \<Rightarrow> bool"
  stdout :: "message list"
  clock :: string

definition print :: "message \<Rightarrow> world \<Rightarrow> world" where
  "print m w = w\<lparr>stdout := stdout w @ [m]\<rparr>"

text \<open>\<^verbatim>\<open>load_data\<close>: the loaded mapping, or \<open>None\<close> when the method returns \<^verbatim>\<open>False\<close>.\<close>

definition load_data :: "string \<Rightarrow> world \<Rightarrow> bench_data option \<times> world" where
  "load_data input_file w =
     (if unreadable w input_file then (None, print LoadFailed w)
      else case files w input_file of
          Some (JsonFile d) \<Rightarrow> (Some d, w)
        | _ \<Rightarrow> (None, print LoadFailed w))"

text \<open>The last component of a path, as \<^verbatim>\<open>Path(p).name\<close> gives it for a POSIX path.\<close>

fun path_parts :: "string \<Rightarrow> string \<Rightarrow> string list" where
  "path_parts cur [] = [cur]"
| "path_parts cur (c # cs) =
     (if c = CHR ''/'' then cur # path_parts [] cs else path_parts (cur @ [c]) cs)"

definition path_name :: "string \<Rightarrow> string" where
  "path_name p =
     (case rev (filter (\<lambda>part. part \<noteq> [] \<and> part \<noteq> ''.'') (path_parts [] p)) of
        [] \<Rightarrow> [] | part # _ \<Rightarrow> part)"

definition generate_report :: "string \<Rightarrow> string \<Rightarrow> world \<Rightarrow> bool \<times> world" where
  "generate_report input_file output_file w =
     (case load_data input_file w of
        (None, w1) \<Rightarrow> (False, w1)
      | (Some d, w1) \<Rightarrow>
          (case generate_html_report (clock w1) (path_name input_file) d of
             Inl e \<Rightarrow> (False, print ReportFailed w1)
           | Inr html_content \<Rightarrow>
               if unwritable w1 output_file then (False, print ReportFailed w1)
               else (True, print (ReportWritten output_file)
                             (w1\<lparr>files := (files w1)(output_file := Some (HtmlFile html_content))\<rparr>))))"

text \<open>\<^verbatim>\<open>main\<close> after argument parsing; the result is the exit status.\<close>

definition main :: "string \<Rightarrow> string \<Rightarrow> world \<Rightarrow> int \<times> world" where
  "main input output w =
     (if files w input = None
      then (1, print RunBenchmarksFirst (print (InputMissing input) w))
      else case generate_report input output w of
          (True, w1) \<Rightarrow> (0, print (OpenInBrowser output) w1)
        | (False, w1) \<Rightarrow> (1, w1))"

section \<open>Properties\<close>

subsection \<open>The classifier partitions its input\<close>

lemma str_in_iff_sublist: "str_in pat s \<longleftrightarrow> sublist pat s"
proof (induction s)
  case Nil
  show ?case by auto
next
  case (Cons c cs)
  show ?case
    using Cons.IH by (auto simp: sublist_Cons_right)
qed

lemma category_of_cases:
  "category_of nm = ''Core'' \<or> category_of nm = ''Network'' \<or> category_of nm = ''Config''
   \<or> category_of nm = ''Memory'' \<or> category_of nm = ''Other''"
  by (simp add: category_of_def)

lemma dict_append_tabulate:
  "dict_append k v (map (\<lambda>k'. (k', f k')) ks) =
   map (\<lambda>k'. (k', if k' = k then f k' @ [v] else f k')) ks"
  by (simp add: dict_append_def)

lemma foldl_categorize_step:
  "foldl categorize_step (map (\<lambda>k. (k, f k)) ks) bs =
   map (\<lambda>k. (k, f k @ filter (\<lambda>b. category_of_benchmark b = k) bs)) ks"
proof (induction bs arbitrary: f)
  case Nil
  show ?case by simp
next
  case (Cons b bs)
  let ?g = "\<lambda>k'. if k' = category_of_benchmark b then f k' @ [b] else f k'"
  have "categorize_step (map (\<lambda>k. (k, f k)) ks) b = map (\<lambda>k. (k, ?g k)) ks"
    by (simp add: categorize_step_def dict_append_tabulate category_of_benchmark_def)
  then have "foldl categorize_step (map (\<lambda>k. (k, f k)) ks) (b # bs) =
      map (\<lambda>k. (k, ?g k @ filter (\<lambda>b. category_of_benchmark b = k) bs)) ks"
    using Cons.IH [of ?g] by simp
  then show ?case by simp
qed

lemma categorize_benchmarks_eq:
  "categorize_benchmarks d =
   map (\<lambda>k. (k, filter (\<lambda>b. category_of_benchmark b = k) (get_default (benchmarks d) [])))
     category_names"
  using foldl_categorize_step [of "\<lambda>k. []" category_names]
  by (simp add: categorize_benchmarks_def empty_categories_def)

lemma mset_five_filters:
  "mset (filter (\<lambda>b. category_of_benchmark b = ''Core'') bs)
   + mset (filter (\<lambda>b. category_of_benchmark b = ''Network'') bs)
   + mset (filter (\<lambda>b. category_of_benchmark b = ''Config'') bs)
   + mset (filter (\<lambda>b. category_of_benchmark b = ''Memory'') bs)
   + mset (filter (\<lambda>b. category_of_benchmark b = ''Other'') bs) = mset bs"
proof (induction bs)
  case Nil
  show ?case by simp
next
  case (Cons b bs)
  show ?case
    using category_of_cases [of "get_default (name b) []"] Cons.IH
    by (auto simp: category_of_benchmark_def)
qed

lemma exactly_one_category:
  "length (filter (\<lambda>k. category_of_benchmark b = k) category_names) = 1"
  using category_of_cases [of "get_default (name b) []"]
  by (auto simp: category_of_benchmark_def category_names_def)

text \<open>
  Claim C1. The classifier returns the five categories Core, Network, Config, Memory,
  Other in this order; the list of each category is the input list restricted to the
  records filed under it, so the input order is kept; every record is filed under exactly
  one of the five names; and the five lists together hold every input record exactly as
  often as the input does (nothing dropped, nothing duplicated).
\<close>

theorem categorize_benchmarks_partition:
  "categorize_benchmarks d =
     map (\<lambda>k. (k, filter (\<lambda>b. category_of_benchmark b = k) (get_default (benchmarks d) [])))
       [''Core'', ''Network'', ''Config'', ''Memory'', ''Other'']
   \<and> length (filter (\<lambda>k. category_of_benchmark b = k)
        [''Core'', ''Network'', ''Config'', ''Memory'', ''Other'']) = 1
   \<and> mset (concat (map snd (categorize_benchmarks d))) = mset (get_default (benchmarks d) [])"
proof (intro conjI)
  show "categorize_benchmarks d =
     map (\<lambda>k. (k, filter (\<lambda>b. category_of_benchmark b = k) (get_default (benchmarks d) [])))
       [''Core'', ''Network'', ''Config'', ''Memory'', ''Other'']"
    using categorize_benchmarks_eq [of d] by (simp only: category_names_def)
  show "length (filter (\<lambda>k. category_of_benchmark b = k)
        [''Core'', ''Network'', ''Config'', ''Memory'', ''Other'']) = 1"
    using exactly_one_category [of b] by (simp only: category_names_def)
  show "mset (concat (map snd (categorize_benchmarks d))) = mset (get_default (benchmarks d) [])"
    using mset_five_filters [of "get_default (benchmarks d) []"]
    by (simp add: categorize_benchmarks_eq category_names_def add.assoc)
qed

end
